theory Spec2Isabelle
  imports Complex_Main "HOL-Library.AList"
begin

section \<open>Python values\<close>

text \<open>
  The values that \<^verbatim>\<open>response.json()\<close> can return and that the client puts into
  request bodies. A dict is an association list in insertion order. Python floats are
  idealised as real numbers: rounding, infinities and NaN are outside the model.
\<close>

datatype pyval =
    PNone
  | PBool bool
  | PInt int
  | PFloat real
  | PStr string
  | PList "pyval list"
  | PDict "(string \<times> pyval) list"

text \<open>Python's truth test, as applied by \<^verbatim>\<open>if x:\<close> and \<^verbatim>\<open>x and y\<close>.\<close>

fun truthy :: "pyval \<Rightarrow> bool" where
  "truthy PNone = False"
| "truthy (PBool b) = b"
| "truthy (PInt i) = (i \<noteq> 0)"
| "truthy (PFloat r) = (r \<noteq> 0)"
| "truthy (PStr s) = (s \<noteq> [])"
| "truthy (PList xs) = (xs \<noteq> [])"
| "truthy (PDict kvs) = (kvs \<noteq> [])"

section \<open>HTTP requests, responses and errors\<close>

record request =
  req_method :: string
  req_url :: string
  req_headers :: "(string \<times> string) list"
  req_params :: "(string \<times> string) list option"
  req_json :: "pyval option"
  req_data :: "(string \<times> string) list option"

text \<open>
  The body of a response is kept in parsed form: either a JSON document, or text that
  \<^verbatim>\<open>response.json()\<close> rejects.
\<close>

datatype body = JsonBody pyval | NotJson string

record response =
  status_code :: int
  content :: body

text \<open>
  The exceptions that leave the client. \<open>HTTPStatusError\<close> is httpx's exception of
  \<^verbatim>\<open>raise_for_status()\<close>; it carries the whole response, so status code and body.
  \<open>RequestError\<close> stands for every failure of the transport (connection, timeout).
\<close>

datatype error =
    HTTPStatusError response
  | RequestError
  | JSONDecodeError
  | KeyError string
  | TypeError
  | ValueError string

text \<open>httpx: a response is a success when its status is 2xx; any other status raises.\<close>

definition is_success :: "response \<Rightarrow> bool" where
  "is_success r \<longleftrightarrow> 200 \<le> status_code r \<and> status_code r \<le> 299"

definition raise_for_status :: "response \<Rightarrow> error + unit" where
  "raise_for_status r = (if is_success r then Inr () else Inl (HTTPStatusError r))"

definition response_json :: "response \<Rightarrow> error + pyval" where
  "response_json r = (case content r of JsonBody v \<Rightarrow> Inr v | NotJson _ \<Rightarrow> Inl JSONDecodeError)"

text \<open>\<^verbatim>\<open>data[key]\<close> with a string key: KeyError on a dict without the key, TypeError on
  every value that is not a dict.\<close>

fun subscript :: "pyval \<Rightarrow> string \<Rightarrow> error + pyval" where
  "subscript (PDict kvs) k = (case map_of kvs k of None \<Rightarrow> Inl (KeyError k) | Some v \<Rightarrow> Inr v)"
| "subscript _ k = Inl TypeError"

text \<open>The right operand of \<^verbatim>\<open>float + x\<close>: numbers and booleans add, everything else is a
  TypeError.\<close>

fun as_number :: "pyval \<Rightarrow> real option" where
  "as_number (PInt i) = Some (of_int i)"
| "as_number (PFloat r) = Some r"
| "as_number (PBool b) = Some (if b then 1 else 0)"
| "as_number _ = None"

text \<open>
  An f-string field \<^verbatim>\<open>{v}\<close>: a string is inserted as it is; for any other value Python's
  built-in conversion \<open>str\<close> is used, which is a parameter of the model.
\<close>

definition fmt :: "(pyval \<Rightarrow> string) \<Rightarrow> pyval \<Rightarrow> string" where
  "fmt str v = (case v of PStr s \<Rightarrow> s | _ \<Rightarrow> str v)"

text \<open>\<^verbatim>\<open>d.update(other)\<close> on dicts.\<close>

definition dict_update :: "('k \<times> 'v) list \<Rightarrow> ('k \<times> 'v) list \<Rightarrow> ('k \<times> 'v) list" where
  "dict_update d other = fold (\<lambda>(k, v) acc. AList.update k v acc) other d"

section \<open>Base64\<close>

definition b64chars :: string where
  "b64chars = ''ABCDEFGHIJKLMNOPQRSTUVWXYZabcdefghijklmnopqrstuvwxyz0123456789+/''"

fun b64_groups :: "nat list \<Rightarrow> string" where
  "b64_groups [] = []"
| "b64_groups [a] =
     [b64chars ! (a div 4), b64chars ! ((a mod 4) * 16), CHR ''='', CHR ''='']"
| "b64_groups [a, b] =
     [b64chars ! (a div 4), b64chars ! ((a mod 4) * 16 + b div 16),
      b64chars ! ((b mod 16) * 4), CHR ''='']"
| "b64_groups (a # b # c # rest) =
     [b64chars ! (a div 4), b64chars ! ((a mod 4) * 16 + b div 16),
      b64chars ! ((b mod 16) * 4 + c div 64), b64chars ! (c mod 64)] @ b64_groups rest"

definition b64encode :: "string \<Rightarrow> string" where
  "b64encode s = b64_groups (map of_char s)"

section \<open>The world outside the client\<close>

text \<open>
  The clock and the network are the client's environment. \<open>clock w n\<close> is what the
  \<open>n\<close>-th call of \<^verbatim>\<open>time.time()\<close> returns and \<open>reads w\<close> counts the calls made so far.
  \<open>sent w\<close> is the log of the HTTP requests issued so far, oldest first, and
  \<open>replies w n\<close> is the outcome of the \<open>n\<close>-th request: a response, or \<open>None\<close> when
  the transport fails. Every behaviour of the servers is some choice of \<open>replies\<close>.
  Calls run one after the other: interleavings of concurrent coroutines are not
  modelled.
\<close>

record world =
  clock :: "nat \<Rightarrow> real"
  reads :: nat
  replies :: "nat \<Rightarrow> response option"
  sent :: "request list"

definition time_time :: "world \<Rightarrow> real \<times> world" where
  "time_time w = (clock w (reads w), w\<lparr>reads := Suc (reads w)\<rparr>)"

definition send :: "request \<Rightarrow> world \<Rightarrow> response option \<times> world" where
  "send r w = (replies w (length (sent w)), w\<lparr>sent := sent w @ [r]\<rparr>)"

section \<open>InvestecClient\<close>

definition API_BASE_URL :: string where
  "API_BASE_URL = ''https://openapi.investec.com''"

definition TOKEN_URL :: string where
  "TOKEN_URL = API_BASE_URL @ ''/identity/v2/oauth2/token''"

definition API_URL :: string where
  "API_URL = API_BASE_URL @ ''/za/pb/v1''"

record InvestecClient =
  client_id :: string
  client_secret :: string
  api_key :: string
  access_token :: pyval
  token_expires_at :: real
  scope :: string

definition init :: "string \<Rightarrow> string \<Rightarrow> string \<Rightarrow> InvestecClient" where
  "init cid csecret key =
     \<lparr>client_id = cid, client_secret = csecret, api_key = key,
      access_token = PNone, token_expires_at = 0,
      scope = ''accounts balances transactions transfers beneficiarypayments documents.statements documents.taxcertificates''\<rparr>"

subsection \<open>\<^verbatim>\<open>_get_token\<close>\<close>

text \<open>The POST to the identity endpoint (lines 35 to 46).\<close>

definition token_request :: "InvestecClient \<Rightarrow> request" where
  "token_request c =
     (let auth = b64encode (client_id c @ '':'' @ client_secret c) in
      \<lparr>req_method = ''POST'', req_url = TOKEN_URL,
       req_headers =
         [(''Authorization'', ''Basic '' @ auth),
          (''x-api-key'', api_key c),
          (''Content-Type'', ''application/x-www-form-urlencoded'')],
       req_params = None, req_json = None,
       req_data = Some [(''grant_type'', ''client_credentials''), (''scope'', scope c)]\<rparr>)"

text \<open>
  The guard of line 32. \<^verbatim>\<open>and\<close> evaluates its right operand, and so reads the clock,
  only when the stored token is true.
\<close>

definition token_usable :: "InvestecClient \<Rightarrow> world \<Rightarrow> bool \<times> world" where
  "token_usable c w =
     (if truthy (access_token c)
      then (let (t, w1) = time_time w in (t < token_expires_at c, w1))
      else (False, w))"

text \<open>
  The result is the exception raised, if any, with the client and the world as the call
  leaves them. Line 51 stores the token before line 52 reads the clock and then
  \<^verbatim>\<open>data["expires_in"]\<close>, so an exception of line 52 leaves the new token stored.
\<close>

definition get_token :: "InvestecClient \<Rightarrow> world \<Rightarrow> (error + unit) \<times> InvestecClient \<times> world" where
  "get_token c w =
     (let (usable, w1) = token_usable c w in
      if usable then (Inr (), c, w1)
      else
        let (reply, w2) = send (token_request c) w1 in
        case reply of
          None \<Rightarrow> (Inl RequestError, c, w2)
        | Some resp \<Rightarrow>
            (case raise_for_status resp of
               Inl e \<Rightarrow> (Inl e, c, w2)
             | Inr _ \<Rightarrow>
                 (case response_json resp of
                    Inl e \<Rightarrow> (Inl e, c, w2)
                  | Inr data \<Rightarrow>
                      (case subscript data ''access_token'' of
                         Inl e \<Rightarrow> (Inl e, c, w2)
                       | Inr tok \<Rightarrow>
                           (let c1 = c\<lparr>access_token := tok\<rparr>;
                                (t, w3) = time_time w2
                            in case subscript data ''expires_in'' of
                                 Inl e \<Rightarrow> (Inl e, c1, w3)
                               | Inr ei \<Rightarrow>
                                   (case as_number ei of
                                      None \<Rightarrow> (Inl TypeError, c1, w3)
                                    | Some n \<Rightarrow>
                                        (Inr (), c1\<lparr>token_expires_at := t + n - 60\<rparr>, w3)))))))"

subsection \<open>\<^verbatim>\<open>_make_request\<close>\<close>

text \<open>The keyword arguments that the methods of the client pass on.\<close>

record kwargs =
  kw_headers :: "(string \<times> string) list option"
  kw_params :: "(string \<times> string) list option"
  kw_json :: "pyval option"

definition no_kwargs :: kwargs where
  "no_kwargs = \<lparr>kw_headers = None, kw_params = None, kw_json = None\<rparr>"

text \<open>The request of lines 58 to 75, built from the client as \<^verbatim>\<open>_get_token\<close> left it.\<close>

definition api_request ::
  "(pyval \<Rightarrow> string) \<Rightarrow> string \<Rightarrow> string \<Rightarrow> kwargs \<Rightarrow> InvestecClient \<Rightarrow> request" where
  "api_request str method endpoint kw c =
     (let url = API_URL @ endpoint;
          headers =
            [(''Authorization'', ''Bearer '' @ fmt str (access_token c)),
             (''x-api-key'', api_key c),
             (''Accept'', ''application/json'')];
          headers = (case kw_headers kw of None \<Rightarrow> headers | Some h \<Rightarrow> dict_update headers h)
      in \<lparr>req_method = method, req_url = url, req_headers = headers,
          req_params = kw_params kw, req_json = kw_json kw, req_data = None\<rparr>)"

definition make_request ::
  "(pyval \<Rightarrow> string) \<Rightarrow> string \<Rightarrow> string \<Rightarrow> kwargs \<Rightarrow> InvestecClient \<Rightarrow> world
     \<Rightarrow> (error + pyval) \<times> InvestecClient \<times> world" where
  "make_request str method endpoint kw c w =
     (case get_token c w of
        (Inl e, c1, w1) \<Rightarrow> (Inl e, c1, w1)
      | (Inr _, c1, w1) \<Rightarrow>
          (let (reply, w2) = send (api_request str method endpoint kw c1) w1 in
           case reply of
             None \<Rightarrow> (Inl RequestError, c1, w2)
           | Some resp \<Rightarrow>
               (case raise_for_status resp of
                  Inl e \<Rightarrow> (Inl e, c1, w2)
                | Inr _ \<Rightarrow>
                    (case response_json resp of
                       Inl e \<Rightarrow> (Inl e, c1, w2)
                     | Inr v \<Rightarrow> (Inr v, c1, w2)))))"

subsection \<open>The banking operations\<close>

type_synonym 'a call = "InvestecClient \<Rightarrow> world \<Rightarrow> (error + 'a) \<times> InvestecClient \<times> world"

definition get_accounts :: "(pyval \<Rightarrow> string) \<Rightarrow> pyval call" where
  "get_accounts str = make_request str ''GET'' ''/accounts'' no_kwargs"

definition get_account_balance :: "(pyval \<Rightarrow> string) \<Rightarrow> string \<Rightarrow> pyval call" where
  "get_account_balance str account_id =
     make_request str ''GET'' (''/accounts/'' @ account_id @ ''/balance'') no_kwargs"

text \<open>\<^verbatim>\<open>if v: params[k] = v\<close> for an \<^verbatim>\<open>Optional[str]\<close> argument \<open>v\<close>: None and the empty
  string are false.\<close>

fun set_if_true ::
  "string \<Rightarrow> string option \<Rightarrow> (string \<times> string) list \<Rightarrow> (string \<times> string) list" where
  "set_if_true k None params = params"
| "set_if_true k (Some s) params = (if s \<noteq> [] then AList.update k s params else params)"

definition get_account_transactions ::
  "(pyval \<Rightarrow> string) \<Rightarrow> string \<Rightarrow> string option \<Rightarrow> string option \<Rightarrow> string option \<Rightarrow> bool
     \<Rightarrow> pyval call" where
  "get_account_transactions str account_id from_date to_date transaction_type include_pending =
     (let params = [];
          params = set_if_true ''fromDate'' from_date params;
          params = set_if_true ''toDate'' to_date params;
          params = set_if_true ''transactionType'' transaction_type params;
          params = (if include_pending then AList.update ''includePending'' ''true'' params
                    else params)
      in make_request str ''GET'' (''/accounts/'' @ account_id @ ''/transactions'')
           \<lparr>kw_headers = None, kw_params = Some params, kw_json = None\<rparr>)"

definition get_pending_transactions :: "(pyval \<Rightarrow> string) \<Rightarrow> string \<Rightarrow> pyval call" where
  "get_pending_transactions str account_id =
     make_request str ''GET'' (''/accounts/'' @ account_id @ ''/pending-transactions'') no_kwargs"

definition get_profiles :: "(pyval \<Rightarrow> string) \<Rightarrow> pyval call" where
  "get_profiles str = make_request str ''GET'' ''/profiles'' no_kwargs"

definition get_profile_accounts :: "(pyval \<Rightarrow> string) \<Rightarrow> string \<Rightarrow> pyval call" where
  "get_profile_accounts str profile_id =
     make_request str ''GET'' (''/profiles/'' @ profile_id @ ''/accounts'') no_kwargs"

definition get_authorisation_setup_details ::
  "(pyval \<Rightarrow> string) \<Rightarrow> string \<Rightarrow> string \<Rightarrow> pyval call" where
  "get_authorisation_setup_details str profile_id account_id =
     make_request str ''GET''
       (''/profiles/'' @ profile_id @ ''/accounts/'' @ account_id @ ''/authorisationsetupdetails'')
       no_kwargs"

definition get_profile_beneficiaries ::
  "(pyval \<Rightarrow> string) \<Rightarrow> string \<Rightarrow> string \<Rightarrow> pyval call" where
  "get_profile_beneficiaries str profile_id account_id =
     make_request str ''GET''
       (''/profiles/'' @ profile_id @ ''/accounts/'' @ account_id @ ''/beneficiaries'')
       no_kwargs"

definition get_beneficiaries :: "(pyval \<Rightarrow> string) \<Rightarrow> pyval call" where
  "get_beneficiaries str = make_request str ''GET'' ''/accounts/beneficiaries'' no_kwargs"

definition get_beneficiary_categories :: "(pyval \<Rightarrow> string) \<Rightarrow> pyval call" where
  "get_beneficiary_categories str =
     make_request str ''GET'' ''/accounts/beneficiarycategories'' no_kwargs"

definition transfer_multiple ::
  "(pyval \<Rightarrow> string) \<Rightarrow> string \<Rightarrow> pyval list \<Rightarrow> string option \<Rightarrow> pyval call" where
  "transfer_multiple str from_account_id transfer_list profile_id =
     (let payload = [(''transferList'', PList transfer_list)];
          payload =
            (case profile_id of
               None \<Rightarrow> payload
             | Some p \<Rightarrow> if p \<noteq> [] then AList.update ''profileId'' (PStr p) payload else payload)
      in make_request str ''POST'' (''/accounts/'' @ from_account_id @ ''/transfermultiple'')
           \<lparr>kw_headers = Some [(''Content-Type'', ''application/json'')], kw_params = None,
            kw_json = Some (PDict payload)\<rparr>)"

definition pay_multiple :: "(pyval \<Rightarrow> string) \<Rightarrow> string \<Rightarrow> pyval list \<Rightarrow> pyval call" where
  "pay_multiple str account_id payment_list =
     make_request str ''POST'' (''/accounts/'' @ account_id @ ''/paymultiple'')
       \<lparr>kw_headers = Some [(''Content-Type'', ''application/json'')], kw_params = None,
        kw_json = Some (PDict [(''paymentList'', PList payment_list)])\<rparr>"

definition get_documents :: "(pyval \<Rightarrow> string) \<Rightarrow> string \<Rightarrow> string \<Rightarrow> string \<Rightarrow> pyval call" where
  "get_documents str account_id from_date to_date =
     (let params = [(''fromDate'', from_date), (''toDate'', to_date)]
      in make_request str ''GET'' (''/accounts/'' @ account_id @ ''/documents'')
           \<lparr>kw_headers = None, kw_params = Some params, kw_json = None\<rparr>)"

definition get_document :: "(pyval \<Rightarrow> string) \<Rightarrow> string \<Rightarrow> string \<Rightarrow> string \<Rightarrow> pyval call" where
  "get_document str account_id document_type document_date =
     make_request str ''GET''
       (''/accounts/'' @ account_id @ ''/document/'' @ document_type @ ''/'' @ document_date)
       no_kwargs"

text \<open>The amount is a Python float; \<^verbatim>\<open>str(amount)\<close> is the parameter \<open>str\<close> at it.\<close>

definition transfer_money ::
  "(pyval \<Rightarrow> string) \<Rightarrow> string \<Rightarrow> string \<Rightarrow> real \<Rightarrow> string \<Rightarrow> pyval call" where
  "transfer_money str from_account_id to_account_id amount reference =
     (let transfer_list =
            [PDict [(''beneficiaryAccountId'', PStr to_account_id),
                    (''amount'', PStr (str (PFloat amount))),
                    (''myReference'', PStr reference),
                    (''theirReference'', PStr reference)]]
      in transfer_multiple str from_account_id transfer_list None)"

definition pay_beneficiary ::
  "(pyval \<Rightarrow> string) \<Rightarrow> string \<Rightarrow> string \<Rightarrow> real \<Rightarrow> string \<Rightarrow> pyval call" where
  "pay_beneficiary str account_id beneficiary_id amount reference =
     (let payment_list =
            [PDict [(''beneficiaryId'', PStr beneficiary_id),
                    (''amount'', PStr (str (PFloat amount))),
                    (''myReference'', PStr reference),
                    (''theirReference'', PStr reference)]]
      in pay_multiple str account_id payment_list)"

subsection \<open>\<^verbatim>\<open>get_investec_api_client\<close>\<close>

text \<open>The process environment is a map from names to values; \<^verbatim>\<open>os.getenv(k, d)\<close> reads it.\<close>

definition getenv :: "(string \<rightharpoonup> string) \<Rightarrow> string \<Rightarrow> string \<Rightarrow> string" where
  "getenv env k d = (case env k of None \<Rightarrow> d | Some v \<Rightarrow> v)"

definition get_investec_api_client :: "(string \<rightharpoonup> string) \<Rightarrow> error + InvestecClient" where
  "get_investec_api_client env =
     (let cid = getenv env ''INVESTEC_CLIENT_ID'' [];
          csecret = getenv env ''INVESTEC_CLIENT_SECRET'' [];
          key = getenv env ''INVESTEC_API_KEY'' []
      in if \<not> list_all (\<lambda>s. s \<noteq> []) [cid, csecret, key]
         then Inl (ValueError ''Missing required environment variables: INVESTEC_CLIENT_ID, INVESTEC_CLIENT_SECRET, or INVESTEC_API_KEY'')
         else Inr (init cid csecret key))"

subsection \<open>Every operation of the client\<close>

text \<open>
  One constructor for each public method of \<^verbatim>\<open>InvestecClient\<close>, with its arguments, and
  the call it stands for. Statements about every operation quantify over this type.
\<close>

datatype operation =
    GetAccounts
  | GetAccountBalance string
  | GetAccountTransactions string "string option" "string option" "string option" bool
  | GetPendingTransactions string
  | GetProfiles
  | GetProfileAccounts string
  | GetAuthorisationSetupDetails string string
  | GetProfileBeneficiaries string string
  | GetBeneficiaries
  | GetBeneficiaryCategories
  | TransferMultiple string "pyval list" "string option"
  | PayMultiple string "pyval list"
  | GetDocuments string string string
  | GetDocument string string string
  | TransferMoney string string real string
  | PayBeneficiary string string real string

fun perform :: "(pyval \<Rightarrow> string) \<Rightarrow> operation \<Rightarrow> pyval call" where
  "perform str GetAccounts = get_accounts str"
| "perform str (GetAccountBalance a) = get_account_balance str a"
| "perform str (GetAccountTransactions a f t ty p) = get_account_transactions str a f t ty p"
| "perform str (GetPendingTransactions a) = get_pending_transactions str a"
| "perform str GetProfiles = get_profiles str"
| "perform str (GetProfileAccounts p) = get_profile_accounts str p"
| "perform str (GetAuthorisationSetupDetails p a) = get_authorisation_setup_details str p a"
| "perform str (GetProfileBeneficiaries p a) = get_profile_beneficiaries str p a"
| "perform str GetBeneficiaries = get_beneficiaries str"
| "perform str GetBeneficiaryCategories = get_beneficiary_categories str"
| "perform str (TransferMultiple a l p) = transfer_multiple str a l p"
| "perform str (PayMultiple a l) = pay_multiple str a l"
| "perform str (GetDocuments a f t) = get_documents str a f t"
| "perform str (GetDocument a ty d) = get_document str a ty d"
| "perform str (TransferMoney a b x r) = transfer_money str a b x r"
| "perform str (PayBeneficiary a b x r) = pay_beneficiary str a b x r"

subsection \<open>Sequences of operations\<close>

text \<open>
  The client's lifetime: operations run one after the other on the same client. A failed
  operation raises to its caller, and the next one runs on the client as the failed one
  left it.
\<close>

fun run :: "(pyval \<Rightarrow> string) \<Rightarrow> operation list \<Rightarrow> InvestecClient \<Rightarrow> world \<Rightarrow> InvestecClient \<times> world" where
  "run str [] c w = (c, w)"
| "run str (op # ops) c w = (case perform str op c w of (_, c1, w1) \<Rightarrow> run str ops c1 w1)"

subsection \<open>Reading a request\<close>

text \<open>The value of a query key and of a key of the JSON body, if the request has it.\<close>

definition query_of :: "request \<Rightarrow> string \<Rightarrow> string option" where
  "query_of r k = (case req_params r of None \<Rightarrow> None | Some ps \<Rightarrow> map_of ps k)"

definition json_key :: "request \<Rightarrow> string \<Rightarrow> pyval option" where
  "json_key r k = (case req_json r of Some (PDict kvs) \<Rightarrow> map_of kvs k | _ \<Rightarrow> None)"

section \<open>Concrete inputs\<close>

text \<open>A world whose clock starts at 1000 and advances one second per reading, and whose
  network answers the requests with the given replies, in order, and then fails.\<close>

definition script :: "response option list \<Rightarrow> nat \<Rightarrow> response option" where
  "script rs n = (if n < length rs then rs ! n else None)"

definition world_of :: "response option list \<Rightarrow> world" where
  "world_of rs = \<lparr>clock = (\<lambda>n. 1000 + of_nat n), reads = 0, replies = script rs, sent = []\<rparr>"

definition reply :: "int \<Rightarrow> pyval \<Rightarrow> response option" where
  "reply s v = Some \<lparr>status_code = s, content = JsonBody v\<rparr>"

text \<open>A stand-in for Python's \<^verbatim>\<open>str\<close>, right at the float 100.\<close>

definition str_demo :: "pyval \<Rightarrow> string" where
  "str_demo v = (case v of PFloat r \<Rightarrow> if r = 100 then ''100.0'' else ''?'' | _ \<Rightarrow> ''?'')"

definition new_client :: InvestecClient where
  "new_client = init ''id'' ''secret'' ''key''"

text \<open>A client that holds the token \<^verbatim>\<open>tok\<close>, usable until 1240.\<close>

definition held_client :: InvestecClient where
  "held_client = new_client\<lparr>access_token := PStr ''tok'', token_expires_at := 1240\<rparr>"


text \<open>The identity endpoint answers 200 with an empty string as token, twice.\<close>

definition empty_token_body :: pyval where
  "empty_token_body = PDict [(''access_token'', PStr []), (''expires_in'', PInt 3600)]"

definition empty_token_world :: world where
  "empty_token_world = world_of [reply 200 empty_token_body, reply 200 empty_token_body]"

text \<open>The identity endpoint answers 200 with a body that has no \<^verbatim>\<open>expires_in\<close>.\<close>

definition no_expiry_world :: world where
  "no_expiry_world = world_of [reply 200 (PDict [(''access_token'', PStr ''tok'')])]"

definition unauthorized :: response where
  "unauthorized = \<lparr>status_code = 401, content = JsonBody (PDict [(''error'', PStr ''invalid_client'')])\<rparr>"

definition server_error :: response where
  "server_error = \<lparr>status_code = 500, content = JsonBody (PDict [(''message'', PStr ''err'')])\<rparr>"

text \<open>An environment that sets all three variables, the first one to the empty string.\<close>

definition empty_id_env :: "string \<rightharpoonup> string" where
  "empty_id_env =
     [''INVESTEC_CLIENT_ID'' \<mapsto> [], ''INVESTEC_CLIENT_SECRET'' \<mapsto> ''secret'',
      ''INVESTEC_API_KEY'' \<mapsto> ''key'']"

definition full_env :: "string \<rightharpoonup> string" where
  "full_env =
     [''INVESTEC_CLIENT_ID'' \<mapsto> ''id'', ''INVESTEC_CLIENT_SECRET'' \<mapsto> ''secret'',
      ''INVESTEC_API_KEY'' \<mapsto> ''key'']"

section \<open>Helper lemmas\<close>

lemma token_usable_eq:
  "token_usable c w =
     (if truthy (access_token c)
      then (clock w (reads w) < token_expires_at c, w\<lparr>reads := Suc (reads w)\<rparr>)
      else (False, w))"
  by (simp add: token_usable_def time_time_def)

lemma get_token_usable:
  assumes "truthy (access_token c)" and "clock w (reads w) < token_expires_at c"
  shows "get_token c w = (Inr (), c, w\<lparr>reads := Suc (reads w)\<rparr>)"
  using assms by (simp add: get_token_def token_usable_eq)

lemma get_token_sent:
  "sent (snd (snd (get_token c w))) =
     (if truthy (access_token c) \<and> clock w (reads w) < token_expires_at c
      then sent w else sent w @ [token_request c])"
  by (simp add: get_token_def token_usable_eq send_def time_time_def Let_def
      split: option.split sum.split)

lemma get_token_credentials:
  "client_id (fst (snd (get_token c w))) = client_id c \<and>
   client_secret (fst (snd (get_token c w))) = client_secret c \<and>
   api_key (fst (snd (get_token c w))) = api_key c"
  by (simp add: get_token_def token_usable_eq send_def time_time_def Let_def
      split: option.split sum.split)



lemma make_request_fail:
  "get_token c w = (Inl e, c1, w1) \<Longrightarrow> make_request str m ep kw c w = (Inl e, c1, w1)"
  by (simp add: make_request_def)

lemma make_request_ok:
  assumes "get_token c w = (Inr u, c1, w1)"
  shows "make_request str m ep kw c w =
     (case replies w1 (length (sent w1)) of
        None \<Rightarrow> Inl RequestError
      | Some resp \<Rightarrow>
          if is_success resp
          then (case content resp of JsonBody v \<Rightarrow> Inr v | NotJson _ \<Rightarrow> Inl JSONDecodeError)
          else Inl (HTTPStatusError resp),
      c1, w1\<lparr>sent := sent w1 @ [api_request str m ep kw c1]\<rparr>)"
  using assms
  by (simp add: make_request_def send_def raise_for_status_def response_json_def
      split: option.split body.split)

lemma make_request_client:
  "fst (snd (make_request str m ep kw c w)) = fst (snd (get_token c w))"
proof (cases "get_token c w")
  case (fields r c1 w1)
  then show ?thesis
    by (cases r) (simp_all add: make_request_fail make_request_ok)
qed

lemma perform_make_request:
  "\<exists>m ep kw. perform str op = make_request str m ep kw"
  by (cases op)
     (auto simp: get_accounts_def get_account_balance_def get_account_transactions_def
        get_pending_transactions_def get_profiles_def get_profile_accounts_def
        get_authorisation_setup_details_def get_profile_beneficiaries_def
        get_beneficiaries_def get_beneficiary_categories_def transfer_multiple_def
        pay_multiple_def get_documents_def get_document_def transfer_money_def
        pay_beneficiary_def Let_def)

lemma perform_credentials:
  "client_id (fst (snd (perform str op c w))) = client_id c \<and>
   client_secret (fst (snd (perform str op c w))) = client_secret c \<and>
   api_key (fst (snd (perform str op c w))) = api_key c"
proof -
  obtain m ep kw where "perform str op = make_request str m ep kw"
    using perform_make_request by blast
  then show ?thesis
    by (simp add: make_request_client get_token_credentials)
qed

lemma api_request_fields:
  "req_method (api_request str m ep kw c) = m"
  "req_url (api_request str m ep kw c) = API_URL @ ep"
  "req_params (api_request str m ep kw c) = kw_params kw"
  "req_json (api_request str m ep kw c) = kw_json kw"
  by (simp_all add: api_request_def Let_def)

lemma held_client_token:
  "get_token held_client (world_of rs) = (Inr (), held_client, (world_of rs)\<lparr>reads := 1\<rparr>)"
  by (simp add: get_token_usable held_client_def world_of_def)

section \<open>The token\<close>

text \<open>
  C1, as stated, fails. A fresh client asks for a token and the identity endpoint
  answers 200 with the empty string as \<^verbatim>\<open>access_token\<close> and \<^verbatim>\<open>expires_in\<close> 3600. The
  client now holds a token (the field is not None) that expires at 4540, and the clock
  reads 1001. Yet the next call of \<^verbatim>\<open>_get_token\<close> sends a token request: so "a request is
  sent if and only if no token is held or the expiry has been reached" is false here.
\<close>

theorem get_token_empty_token_counterexample:
  "\<not> (sent (snd (snd (get_token (fst (snd (get_token new_client empty_token_world)))
                                 (snd (snd (get_token new_client empty_token_world))))))
        = sent (snd (snd (get_token new_client empty_token_world)))
          @ [token_request (fst (snd (get_token new_client empty_token_world)))]
      \<longleftrightarrow>
        access_token (fst (snd (get_token new_client empty_token_world))) = PNone
        \<or> token_expires_at (fst (snd (get_token new_client empty_token_world)))
            \<le> clock (snd (snd (get_token new_client empty_token_world)))
                 (reads (snd (snd (get_token new_client empty_token_world)))))"
proof -
  have first: "get_token new_client empty_token_world =
      (Inr (), new_client\<lparr>access_token := PStr [], token_expires_at := 4540\<rparr>,
       empty_token_world\<lparr>reads := 1, sent := [token_request new_client]\<rparr>)"
    by (simp add: get_token_def token_usable_eq send_def raise_for_status_def is_success_def
        response_json_def time_time_def new_client_def init_def empty_token_world_def
        world_of_def script_def reply_def empty_token_body_def)
  show ?thesis
    unfolding first by (simp add: get_token_sent empty_token_world_def world_of_def)
qed

text \<open>
  C1, amended: \<^verbatim>\<open>_get_token\<close> sends a token request if and only if the stored access
  token is false in Python's truth test (None, or an empty or zero value such as the empty
  string) or the current time is at or past the stored expiry. It then sends exactly that
  one request. Otherwise, when the stored token is true and \<open>now < token_expires_at\<close>,
  it sends nothing and returns at once, and the client, so the token and its expiry, is
  unchanged. The statement holds in every state of client and world, so at every call
  of every sequence of operations.
\<close>

theorem get_token_requests_iff_unusable:
  "(sent (snd (snd (get_token c w))) = sent w @ [token_request c]
      \<longleftrightarrow> \<not> truthy (access_token c) \<or> token_expires_at c \<le> clock w (reads w))
   \<and> (sent (snd (snd (get_token c w))) = sent w
      \<longleftrightarrow> truthy (access_token c) \<and> clock w (reads w) < token_expires_at c)
   \<and> (truthy (access_token c) \<and> clock w (reads w) < token_expires_at c
      \<longrightarrow> get_token c w = (Inr (), c, w\<lparr>reads := Suc (reads w)\<rparr>))"
  by (auto simp: get_token_sent get_token_usable)

theorem get_token_requests_iff_unusable_witness:
  "truthy (access_token held_client)
   \<and> clock (world_of []) (reads (world_of [])) < token_expires_at held_client
   \<and> get_token held_client (world_of []) = (Inr (), held_client, (world_of [])\<lparr>reads := 1\<rparr>)
   \<and> sent (snd (snd (get_token held_client (world_of [])))) = []
   \<and> sent (snd (snd (get_token new_client (world_of [])))) = [token_request new_client]"
  using get_token_requests_iff_unusable [of held_client "world_of []"]
    get_token_requests_iff_unusable [of new_client "world_of []"]
  by (simp add: held_client_def new_client_def init_def world_of_def)





text \<open>
  C4 does not hold of the code. Line 51 stores the new token before line 52 looks up
  \<^verbatim>\<open>expires_in\<close>: when the identity endpoint answers 200 with the body
  \<^verbatim>\<open>{"access_token": "tok"}\<close>, the call of a fresh client raises \<open>KeyError\<close>, but the
  client then holds the token \<^verbatim>\<open>tok\<close> with the old expiry 0, where it held None before.
\<close>

theorem get_token_missing_expires_in_stores_token:
  "fst (get_token new_client no_expiry_world) = Inl (KeyError ''expires_in'')
   \<and> access_token new_client = PNone
   \<and> access_token (fst (snd (get_token new_client no_expiry_world))) = PStr ''tok''
   \<and> token_expires_at (fst (snd (get_token new_client no_expiry_world))) = 0"
  by (simp add: get_token_def token_usable_eq send_def raise_for_status_def is_success_def
      response_json_def time_time_def new_client_def init_def no_expiry_world_def
      world_of_def script_def reply_def)

section \<open>The banking operations\<close>

text \<open>
  C5: take any operation of the client, in a state where \<^verbatim>\<open>_get_token\<close> succeeds, and any
  response of the resource endpoint to the request that follows. The operation sends
  exactly one request after the token step. If the status of the response is not a
  success (500, say), the operation raises \<open>HTTPStatusError\<close> with that response, so with
  its status code and body. If the status is a success and the body is a JSON document,
  the operation returns that document as it is.
\<close>

theorem perform_single_attempt:
  assumes "get_token c w = (Inr (), c1, w1)"
    and "replies w1 (length (sent w1)) = Some resp"
  shows "\<exists>r w2. sent w2 = sent w1 @ [r]
    \<and> (\<not> is_success resp \<longrightarrow> perform str op c w = (Inl (HTTPStatusError resp), c1, w2))
    \<and> (\<forall>v. is_success resp \<and> content resp = JsonBody v
           \<longrightarrow> perform str op c w = (Inr v, c1, w2))"
proof -
  obtain m ep kw where "perform str op = make_request str m ep kw"
    using perform_make_request by blast
  then have "perform str op c w =
     (if is_success resp
      then (case content resp of JsonBody v \<Rightarrow> Inr v | NotJson _ \<Rightarrow> Inl JSONDecodeError)
      else Inl (HTTPStatusError resp),
      c1, w1\<lparr>sent := sent w1 @ [api_request str m ep kw c1]\<rparr>)"
    using assms by (simp add: make_request_ok)
  moreover have "sent (w1\<lparr>sent := sent w1 @ [api_request str m ep kw c1]\<rparr>)
      = sent w1 @ [api_request str m ep kw c1]"
    by simp
  ultimately show ?thesis by (intro exI conjI) (assumption, auto)
qed

theorem perform_single_attempt_witness:
  "fst (perform str_demo GetAccounts held_client (world_of [Some server_error]))
     = Inl (HTTPStatusError server_error)
   \<and> status_code server_error = 500
   \<and> content server_error = JsonBody (PDict [(''message'', PStr ''err'')])
   \<and> length (sent (snd (snd (perform str_demo GetAccounts held_client
                                 (world_of [Some server_error]))))) = 1
   \<and> fst (perform str_demo GetAccounts held_client
            (world_of [reply 200 (PDict [(''accounts'', PList [])])]))
     = Inr (PDict [(''accounts'', PList [])])"
proof -
  let ?ok = "\<lparr>status_code = 200, content = JsonBody (PDict [(''accounts'', PList [])])\<rparr>"
  have bad: "replies ((world_of [Some server_error])\<lparr>reads := 1\<rparr>)
      (length (sent ((world_of [Some server_error])\<lparr>reads := 1\<rparr>))) = Some server_error"
    by (simp add: world_of_def script_def)
  have good: "replies ((world_of [reply 200 (PDict [(''accounts'', PList [])])])\<lparr>reads := 1\<rparr>)
      (length (sent ((world_of [reply 200 (PDict [(''accounts'', PList [])])])\<lparr>reads := 1\<rparr>)))
      = Some ?ok"
    by (simp add: world_of_def script_def reply_def)
  have no: "\<not> is_success server_error" and yes: "is_success ?ok"
    by (simp_all add: is_success_def server_error_def)
  from perform_single_attempt [OF held_client_token bad, of str_demo GetAccounts] no
  have "fst (perform str_demo GetAccounts held_client (world_of [Some server_error]))
      = Inl (HTTPStatusError server_error)"
    and "length (sent (snd (snd (perform str_demo GetAccounts held_client
                                   (world_of [Some server_error]))))) = 1"
    by (auto simp: world_of_def)
  moreover from perform_single_attempt [OF held_client_token good, of str_demo GetAccounts] yes
  have "fst (perform str_demo GetAccounts held_client
               (world_of [reply 200 (PDict [(''accounts'', PList [])])]))
      = Inr (PDict [(''accounts'', PList [])])"
    by auto
  ultimately show ?thesis
    by (simp add: server_error_def)
qed

text \<open>
  C6, as stated, fails: a filter that is supplied as the empty string does not reach the
  query. With \<^verbatim>\<open>from_date=""\<close> the request has no \<^verbatim>\<open>fromDate\<close> key.
\<close>

theorem get_account_transactions_empty_filter_counterexample:
  "query_of (last (sent (snd (snd (get_account_transactions str_demo ''123'' (Some []) None None
                                     True held_client (world_of [])))))) ''fromDate''
     \<noteq> Some []"
  by (simp add: get_account_transactions_def make_request_ok [OF held_client_token]
      api_request_fields query_of_def)

text \<open>
  C6, amended: in a state where \<^verbatim>\<open>_get_token\<close> succeeds, \<^verbatim>\<open>get_account_transactions\<close>
  sends one request, a GET to \<^verbatim>\<open>/accounts/{id}/transactions\<close> under the API URL. Its query
  has \<^verbatim>\<open>includePending\<close> exactly when \<^verbatim>\<open>include_pending\<close> is true, and then with the value
  \<^verbatim>\<open>"true"\<close>. It has no \<^verbatim>\<open>fromDate\<close>, \<^verbatim>\<open>toDate\<close> or \<^verbatim>\<open>transactionType\<close> key when the
  argument is not supplied, and each filter that is supplied and not empty is the value
  of its key.
\<close>

theorem get_account_transactions_query:
  assumes "get_token c w = (Inr (), c1, w1)"
  shows "\<exists>r res w2.
      get_account_transactions str account_id from_date to_date transaction_type include_pending
        c w = (res, c1, w2)
    \<and> sent w2 = sent w1 @ [r]
    \<and> req_method r = ''GET''
    \<and> req_url r = API_URL @ ''/accounts/'' @ account_id @ ''/transactions''
    \<and> (query_of r ''includePending'' = Some ''true'' \<longleftrightarrow> include_pending)
    \<and> (\<not> include_pending \<longrightarrow> query_of r ''includePending'' = None)
    \<and> (from_date = None \<longrightarrow> query_of r ''fromDate'' = None)
    \<and> (to_date = None \<longrightarrow> query_of r ''toDate'' = None)
    \<and> (transaction_type = None \<longrightarrow> query_of r ''transactionType'' = None)
    \<and> (\<forall>s. from_date = Some s \<and> s \<noteq> [] \<longrightarrow> query_of r ''fromDate'' = Some s)
    \<and> (\<forall>s. to_date = Some s \<and> s \<noteq> [] \<longrightarrow> query_of r ''toDate'' = Some s)
    \<and> (\<forall>s. transaction_type = Some s \<and> s \<noteq> []
           \<longrightarrow> query_of r ''transactionType'' = Some s)"
proof -
  define params where "params =
    (let params = [];
         params = set_if_true ''fromDate'' from_date params;
         params = set_if_true ''toDate'' to_date params;
         params = set_if_true ''transactionType'' transaction_type params;
         params = (if include_pending then AList.update ''includePending'' ''true'' params
                   else params)
     in params)"
  define kw where "kw = \<lparr>kw_headers = None, kw_params = Some params, kw_json = None\<rparr>"
  define r where
    "r = api_request str ''GET'' (''/accounts/'' @ account_id @ ''/transactions'') kw c1"
  have call: "get_account_transactions str account_id from_date to_date transaction_type
      include_pending c w
    = make_request str ''GET'' (''/accounts/'' @ account_id @ ''/transactions'') kw c w"
    by (simp add: get_account_transactions_def kw_def params_def Let_def)
  have q: "query_of r k = map_of params k" for k
    by (simp add: r_def query_of_def api_request_fields kw_def)
  have look: "map_of (set_if_true k v ps) k' =
      (if k' = k \<and> v \<noteq> None \<and> v \<noteq> Some [] then v else map_of ps k')" for k k' v ps
    by (cases v) (auto simp: update_conv')
  have m: "map_of params ''includePending'' = (if include_pending then Some ''true'' else None)"
    "map_of params ''fromDate'' =
       (if from_date \<noteq> None \<and> from_date \<noteq> Some [] then from_date else None)"
    "map_of params ''toDate'' =
       (if to_date \<noteq> None \<and> to_date \<noteq> Some [] then to_date else None)"
    "map_of params ''transactionType'' =
       (if transaction_type \<noteq> None \<and> transaction_type \<noteq> Some [] then transaction_type
        else None)"
    by (simp_all add: params_def Let_def look update_conv')
  have "get_account_transactions str account_id from_date to_date transaction_type
      include_pending c w
    = (case replies w1 (length (sent w1)) of
        None \<Rightarrow> Inl RequestError
      | Some resp \<Rightarrow>
          if is_success resp
          then (case content resp of JsonBody v \<Rightarrow> Inr v | NotJson _ \<Rightarrow> Inl JSONDecodeError)
          else Inl (HTTPStatusError resp),
      c1, w1\<lparr>sent := sent w1 @ [r]\<rparr>)"
    unfolding call r_def using assms by (rule make_request_ok)
  moreover have "sent (w1\<lparr>sent := sent w1 @ [r]\<rparr>) = sent w1 @ [r]"
    by simp
  moreover have "req_method r = ''GET''"
    and "req_url r = API_URL @ ''/accounts/'' @ account_id @ ''/transactions''"
    by (simp_all add: r_def api_request_fields)
  moreover have "query_of r ''includePending'' = Some ''true'' \<longleftrightarrow> include_pending"
    and "\<not> include_pending \<longrightarrow> query_of r ''includePending'' = None"
    by (simp_all add: q m)
  moreover have "from_date = None \<longrightarrow> query_of r ''fromDate'' = None"
    and "to_date = None \<longrightarrow> query_of r ''toDate'' = None"
    and "transaction_type = None \<longrightarrow> query_of r ''transactionType'' = None"
    by (simp_all add: q m)
  moreover have "\<forall>s. from_date = Some s \<and> s \<noteq> [] \<longrightarrow> query_of r ''fromDate'' = Some s"
    and "\<forall>s. to_date = Some s \<and> s \<noteq> [] \<longrightarrow> query_of r ''toDate'' = Some s"
    and "\<forall>s. transaction_type = Some s \<and> s \<noteq> []
           \<longrightarrow> query_of r ''transactionType'' = Some s"
    by (simp_all add: q m)
  ultimately show ?thesis by blast
qed

theorem get_account_transactions_query_witness:
  "\<exists>r. sent (snd (snd (get_account_transactions str_demo ''123'' None (Some ''2024-01-31'') None
                          True held_client (world_of [])))) = [r]
     \<and> req_method r = ''GET''
     \<and> req_url r = ''https://openapi.investec.com/za/pb/v1/accounts/123/transactions''
     \<and> query_of r ''includePending'' = Some ''true''
     \<and> query_of r ''fromDate'' = None
     \<and> query_of r ''toDate'' = Some ''2024-01-31''
     \<and> query_of r ''transactionType'' = None"
  using get_account_transactions_query [OF held_client_token, of str_demo "''123''" None
      "Some ''2024-01-31''" None True "[]"]
  by (auto simp: world_of_def API_URL_def API_BASE_URL_def)

text \<open>
  C7: \<^verbatim>\<open>transfer_money\<close> is \<^verbatim>\<open>transfer_multiple\<close> on a list of one transfer, with no
  profile id. In a state where \<^verbatim>\<open>_get_token\<close> succeeds it sends one request, a POST to
  \<^verbatim>\<open>/accounts/{from}/transfermultiple\<close>, whose JSON body has the single key
  \<^verbatim>\<open>transferList\<close>: a list of one entry with the destination account as
  \<^verbatim>\<open>beneficiaryAccountId\<close>, \<^verbatim>\<open>str(amount)\<close> as \<^verbatim>\<open>amount\<close> and the reference as both
  \<^verbatim>\<open>myReference\<close> and \<^verbatim>\<open>theirReference\<close>. The body has no \<^verbatim>\<open>profileId\<close> key.
\<close>

theorem transfer_money_delegates:
  assumes "get_token c w = (Inr (), c1, w1)"
    and "entry = PDict [(''beneficiaryAccountId'', PStr to_account_id),
                        (''amount'', PStr (str (PFloat amount))),
                        (''myReference'', PStr reference),
                        (''theirReference'', PStr reference)]"
  shows "transfer_money str from_account_id to_account_id amount reference c w
      = transfer_multiple str from_account_id [entry] None c w
    \<and> (\<exists>r res w2.
          transfer_money str from_account_id to_account_id amount reference c w = (res, c1, w2)
        \<and> sent w2 = sent w1 @ [r]
        \<and> req_method r = ''POST''
        \<and> req_url r = API_URL @ ''/accounts/'' @ from_account_id @ ''/transfermultiple''
        \<and> req_json r = Some (PDict [(''transferList'', PList [entry])])
        \<and> json_key r ''transferList'' = Some (PList [entry])
        \<and> json_key r ''profileId'' = None)"
proof -
  define kw where "kw = \<lparr>kw_headers = Some [(''Content-Type'', ''application/json'')],
    kw_params = None, kw_json = Some (PDict [(''transferList'', PList [entry])])\<rparr>"
  define r where
    "r = api_request str ''POST'' (''/accounts/'' @ from_account_id @ ''/transfermultiple'') kw c1"
  have deleg: "transfer_money str from_account_id to_account_id amount reference c w
      = transfer_multiple str from_account_id [entry] None c w"
    by (simp add: transfer_money_def assms(2))
  have call: "transfer_multiple str from_account_id [entry] None c w
      = make_request str ''POST'' (''/accounts/'' @ from_account_id @ ''/transfermultiple'') kw c w"
    by (simp add: transfer_multiple_def kw_def)
  have "transfer_money str from_account_id to_account_id amount reference c w
    = (case replies w1 (length (sent w1)) of
        None \<Rightarrow> Inl RequestError
      | Some resp \<Rightarrow>
          if is_success resp
          then (case content resp of JsonBody v \<Rightarrow> Inr v | NotJson _ \<Rightarrow> Inl JSONDecodeError)
          else Inl (HTTPStatusError resp),
      c1, w1\<lparr>sent := sent w1 @ [r]\<rparr>)"
    unfolding deleg call r_def using assms(1) by (rule make_request_ok)
  moreover have "sent (w1\<lparr>sent := sent w1 @ [r]\<rparr>) = sent w1 @ [r]"
    by simp
  moreover have "req_method r = ''POST''"
    and "req_url r = API_URL @ ''/accounts/'' @ from_account_id @ ''/transfermultiple''"
    and "req_json r = Some (PDict [(''transferList'', PList [entry])])"
    by (simp_all add: r_def api_request_fields kw_def)
  moreover have "json_key r ''transferList'' = Some (PList [entry])"
    and "json_key r ''profileId'' = None"
    by (simp_all add: r_def api_request_fields kw_def json_key_def)
  ultimately show ?thesis using deleg by blast
qed

theorem transfer_money_delegates_witness:
  "\<exists>r. sent (snd (snd (transfer_money str_demo ''A'' ''B'' 100 ''ref'' held_client (world_of []))))
         = [r]
     \<and> req_method r = ''POST''
     \<and> req_url r = ''https://openapi.investec.com/za/pb/v1/accounts/A/transfermultiple''
     \<and> req_json r = Some (PDict [(''transferList'',
          PList [PDict [(''beneficiaryAccountId'', PStr ''B''), (''amount'', PStr ''100.0''),
                        (''myReference'', PStr ''ref''), (''theirReference'', PStr ''ref'')]])])
     \<and> json_key r ''profileId'' = None"
proof -
  from transfer_money_delegates [OF held_client_token refl, of str_demo "''A''" "''B''" 100
      "''ref''" "[]"]
  obtain r res w2 where
    "transfer_money str_demo ''A'' ''B'' 100 ''ref'' held_client (world_of [])
       = (res, held_client, w2)"
    and "sent w2 = sent ((world_of [])\<lparr>reads := 1\<rparr>) @ [r]"
    and "req_method r = ''POST''"
    and "req_url r = API_URL @ ''/accounts/'' @ ''A'' @ ''/transfermultiple''"
    and "req_json r = Some (PDict [(''transferList'',
          PList [PDict [(''beneficiaryAccountId'', PStr ''B''),
                        (''amount'', PStr (str_demo (PFloat 100))),
                        (''myReference'', PStr ''ref''), (''theirReference'', PStr ''ref'')]])])"
    and "json_key r ''profileId'' = None"
    by blast
  then show ?thesis
    by (intro exI [of _ r]) (simp add: world_of_def API_URL_def API_BASE_URL_def str_demo_def)
qed

section \<open>The credentials\<close>

lemma run_credentials:
  "client_id (fst (run str ops c w)) = client_id c \<and>
   client_secret (fst (run str ops c w)) = client_secret c \<and>
   api_key (fst (run str ops c w)) = api_key c"
proof (induction ops arbitrary: c w)
  case Nil
  show ?case by simp
next
  case (Cons op ops)
  obtain res c1 w1 where step: "perform str op c w = (res, c1, w1)"
    by (cases "perform str op c w")
  have "client_id c1 = client_id c \<and> client_secret c1 = client_secret c \<and> api_key c1 = api_key c"
    using perform_credentials [of str op c w] by (simp add: step)
  with Cons.IH [of c1 w1] show ?case
    by (simp add: step)
qed

text \<open>
  C8: no operation changes the credentials, whether it succeeds or fails: after any
  operation, and after \<^verbatim>\<open>_get_token\<close> alone, the client has the \<^verbatim>\<open>client_id\<close>,
  \<^verbatim>\<open>client_secret\<close> and \<^verbatim>\<open>api_key\<close> it had before. So after any sequence of operations on
  a client built by \<^verbatim>\<open>__init__\<close>, in any world, the three are the values given to
  \<^verbatim>\<open>__init__\<close>.
\<close>

theorem credentials_immutable:
  "client_id (fst (snd (perform str op c w))) = client_id c
   \<and> client_secret (fst (snd (perform str op c w))) = client_secret c
   \<and> api_key (fst (snd (perform str op c w))) = api_key c
   \<and> client_id (fst (snd (get_token c w))) = client_id c
   \<and> client_secret (fst (snd (get_token c w))) = client_secret c
   \<and> api_key (fst (snd (get_token c w))) = api_key c
   \<and> client_id (fst (run str ops (init cid csecret key) w)) = cid
   \<and> client_secret (fst (run str ops (init cid csecret key) w)) = csecret
   \<and> api_key (fst (run str ops (init cid csecret key) w)) = key"
  using perform_credentials [of str op c w] get_token_credentials [of c w]
    run_credentials [of str ops "init cid csecret key" w]
  by (simp add: init_def)

theorem credentials_immutable_witness:
  "client_id (fst (run str_demo [GetAccounts, TransferMoney ''A'' ''B'' 100 ''ref'', GetProfiles]
                     (init ''id'' ''secret'' ''key'') (world_of [Some unauthorized]))) = ''id''
   \<and> client_secret (fst (run str_demo [GetAccounts, TransferMoney ''A'' ''B'' 100 ''ref'', GetProfiles]
                     (init ''id'' ''secret'' ''key'') (world_of [Some unauthorized]))) = ''secret''
   \<and> api_key (fst (run str_demo [GetAccounts, TransferMoney ''A'' ''B'' 100 ''ref'', GetProfiles]
                     (init ''id'' ''secret'' ''key'') (world_of [Some unauthorized]))) = ''key''"
  using credentials_immutable [of str_demo GetAccounts new_client "world_of [Some unauthorized]"
      "[GetAccounts, TransferMoney ''A'' ''B'' 100 ''ref'', GetProfiles]" "''id''" "''secret''"
      "''key''"]
  by simp

section \<open>Construction from the environment\<close>

text \<open>
  C9, as stated, fails: with all three variables present, one of them set to the empty
  string, \<^verbatim>\<open>get_investec_api_client\<close> raises, although none of the three is absent.
\<close>

theorem get_investec_api_client_empty_variable_counterexample:
  "get_investec_api_client empty_id_env
     = Inl (ValueError ''Missing required environment variables: INVESTEC_CLIENT_ID, INVESTEC_CLIENT_SECRET, or INVESTEC_API_KEY'')
   \<and> empty_id_env ''INVESTEC_CLIENT_ID'' \<noteq> None
   \<and> empty_id_env ''INVESTEC_CLIENT_SECRET'' \<noteq> None
   \<and> empty_id_env ''INVESTEC_API_KEY'' \<noteq> None"
  by (simp add: get_investec_api_client_def getenv_def empty_id_env_def)

text \<open>
  C9, amended: \<^verbatim>\<open>get_investec_api_client\<close> raises \<open>ValueError\<close>, and returns no client,
  exactly when at least one of \<^verbatim>\<open>INVESTEC_CLIENT_ID\<close>, \<^verbatim>\<open>INVESTEC_CLIENT_SECRET\<close> and
  \<^verbatim>\<open>INVESTEC_API_KEY\<close> is absent from the environment or set to the empty string. When
  all three are present and not empty it returns a client that holds these values, no
  token (None) and the expiry 0.
\<close>

theorem get_investec_api_client_missing:
  "((\<exists>e. get_investec_api_client env = Inl e)
      \<longleftrightarrow> (\<exists>k \<in> {''INVESTEC_CLIENT_ID'', ''INVESTEC_CLIENT_SECRET'', ''INVESTEC_API_KEY''}.
            env k = None \<or> env k = Some []))
   \<and> ((\<exists>e. get_investec_api_client env = Inl e)
      \<longrightarrow> (\<exists>msg. get_investec_api_client env = Inl (ValueError msg)))
   \<and> (env ''INVESTEC_CLIENT_ID'' = Some cid \<and> cid \<noteq> []
      \<and> env ''INVESTEC_CLIENT_SECRET'' = Some csecret \<and> csecret \<noteq> []
      \<and> env ''INVESTEC_API_KEY'' = Some key \<and> key \<noteq> []
      \<longrightarrow> (\<exists>c. get_investec_api_client env = Inr c
            \<and> client_id c = cid \<and> client_secret c = csecret \<and> api_key c = key
            \<and> access_token c = PNone \<and> token_expires_at c = 0))"
  by (auto simp: get_investec_api_client_def getenv_def init_def split: option.splits)

theorem get_investec_api_client_missing_witness:
  "(\<exists>c. get_investec_api_client full_env = Inr c
       \<and> client_id c = ''id'' \<and> client_secret c = ''secret'' \<and> api_key c = ''key''
       \<and> access_token c = PNone \<and> token_expires_at c = 0)
   \<and> (\<exists>msg. get_investec_api_client (full_env(''INVESTEC_API_KEY'' := None)) = Inl (ValueError msg))"
  using get_investec_api_client_missing [of full_env "''id''" "''secret''" "''key''"]
    get_investec_api_client_missing [of "full_env(''INVESTEC_API_KEY'' := None)"]
  by (simp add: full_env_def)

section \<open>Empty strings as arguments\<close>

text \<open>
  C10: the optional string arguments are tested by truth value. A call of
  \<^verbatim>\<open>get_account_transactions\<close> with \<^verbatim>\<open>from_date\<close>, \<^verbatim>\<open>to_date\<close> or \<^verbatim>\<open>transaction_type\<close>
  equal to the empty string is the same call as the one without that argument, and a
  call of \<^verbatim>\<open>transfer_multiple\<close> with \<^verbatim>\<open>profile_id\<close> equal to the empty string is the same
  call as the one without profile id. In a state where \<^verbatim>\<open>_get_token\<close> succeeds, the
  request that goes out has no key for the empty argument: no \<^verbatim>\<open>fromDate\<close>, \<^verbatim>\<open>toDate\<close> or
  \<^verbatim>\<open>transactionType\<close> in the query, no \<^verbatim>\<open>profileId\<close> in the body.
\<close>

theorem empty_string_is_omitted:
  "get_account_transactions str account_id (Some []) to_date transaction_type include_pending
     = get_account_transactions str account_id None to_date transaction_type include_pending
   \<and> get_account_transactions str account_id from_date (Some []) transaction_type include_pending
     = get_account_transactions str account_id from_date None transaction_type include_pending
   \<and> get_account_transactions str account_id from_date to_date (Some []) include_pending
     = get_account_transactions str account_id from_date to_date None include_pending
   \<and> transfer_multiple str from_account_id transfer_list (Some [])
     = transfer_multiple str from_account_id transfer_list None
   \<and> (get_token c w = (Inr (), c1, w1) \<longrightarrow>
        query_of (last (sent (snd (snd (get_account_transactions str account_id (Some []) to_date
            transaction_type include_pending c w))))) ''fromDate'' = None
      \<and> query_of (last (sent (snd (snd (get_account_transactions str account_id from_date (Some [])
            transaction_type include_pending c w))))) ''toDate'' = None
      \<and> query_of (last (sent (snd (snd (get_account_transactions str account_id from_date to_date
            (Some []) include_pending c w))))) ''transactionType'' = None
      \<and> json_key (last (sent (snd (snd (transfer_multiple str from_account_id transfer_list
            (Some []) c w))))) ''profileId'' = None)"
proof -
  have look: "map_of (set_if_true k v ps) k' =
      (if k' = k \<and> v \<noteq> None \<and> v \<noteq> Some [] then v else map_of ps k')" for k k' v ps
    by (cases v) (auto simp: update_conv')
  have "get_token c w = (Inr (), c1, w1) \<Longrightarrow>
      query_of (last (sent (snd (snd (get_account_transactions str account_id (Some []) to_date
          transaction_type include_pending c w))))) ''fromDate'' = None"
    by (simp add: get_account_transactions_def make_request_ok api_request_fields query_of_def
        look update_conv' Let_def del: set_if_true.simps)
  moreover have "get_token c w = (Inr (), c1, w1) \<Longrightarrow>
      query_of (last (sent (snd (snd (get_account_transactions str account_id from_date (Some [])
          transaction_type include_pending c w))))) ''toDate'' = None"
    by (simp add: get_account_transactions_def make_request_ok api_request_fields query_of_def
        look update_conv' Let_def del: set_if_true.simps)
  moreover have "get_token c w = (Inr (), c1, w1) \<Longrightarrow>
      query_of (last (sent (snd (snd (get_account_transactions str account_id from_date to_date
          (Some []) include_pending c w))))) ''transactionType'' = None"
    by (simp add: get_account_transactions_def make_request_ok api_request_fields query_of_def
        look update_conv' Let_def del: set_if_true.simps)
  moreover have "get_token c w = (Inr (), c1, w1) \<Longrightarrow>
      json_key (last (sent (snd (snd (transfer_multiple str from_account_id transfer_list
          (Some []) c w))))) ''profileId'' = None"
    by (simp add: transfer_multiple_def make_request_ok api_request_fields json_key_def)
  moreover have "get_account_transactions str account_id (Some []) to_date transaction_type
        include_pending
      = get_account_transactions str account_id None to_date transaction_type include_pending"
    and "get_account_transactions str account_id from_date (Some []) transaction_type
        include_pending
      = get_account_transactions str account_id from_date None transaction_type include_pending"
    and "get_account_transactions str account_id from_date to_date (Some []) include_pending
      = get_account_transactions str account_id from_date to_date None include_pending"
    and "transfer_multiple str from_account_id transfer_list (Some [])
      = transfer_multiple str from_account_id transfer_list None"
    by (simp_all add: get_account_transactions_def transfer_multiple_def)
  ultimately show ?thesis by blast
qed

theorem empty_string_is_omitted_witness:
  "query_of (last (sent (snd (snd (get_account_transactions str_demo ''123'' (Some []) None None
       True held_client (world_of [])))))) ''fromDate'' = None
   \<and> query_of (last (sent (snd (snd (get_account_transactions str_demo ''123'' (Some []) None None
       True held_client (world_of [])))))) ''includePending'' = Some ''true''
   \<and> json_key (last (sent (snd (snd (transfer_multiple str_demo ''A'' [] (Some [])
       held_client (world_of [])))))) ''profileId'' = None
   \<and> get_account_transactions str_demo ''123'' (Some []) None None True held_client (world_of [])
     = get_account_transactions str_demo ''123'' None None None True held_client (world_of [])"
proof -
  note facts = empty_string_is_omitted [where str = str_demo and account_id = "''123''"
      and from_date = None and to_date = None and transaction_type = None
      and include_pending = True and from_account_id = "''A''" and transfer_list = "[]"
      and c = held_client and w = "world_of []" and ?c1.0 = held_client
      and ?w1.0 = "(world_of [])\<lparr>reads := 1\<rparr>"]
  have "query_of (last (sent (snd (snd (get_account_transactions str_demo ''123'' (Some []) None
      None True held_client (world_of [])))))) ''includePending'' = Some ''true''"
    by (simp add: get_account_transactions_def make_request_ok [OF held_client_token]
        api_request_fields query_of_def)
  moreover from facts held_client_token [of "[]"]
  have "query_of (last (sent (snd (snd (get_account_transactions str_demo ''123'' (Some []) None
      None True held_client (world_of [])))))) ''fromDate'' = None"
    and "json_key (last (sent (snd (snd (transfer_multiple str_demo ''A'' [] (Some [])
      held_client (world_of [])))))) ''profileId'' = None"
    by blast+
  moreover from facts
  have "get_account_transactions str_demo ''123'' (Some []) None None True
      = get_account_transactions str_demo ''123'' None None None True"
    by blast
  then have "get_account_transactions str_demo ''123'' (Some []) None None True held_client
        (world_of [])
      = get_account_transactions str_demo ''123'' None None None True held_client (world_of [])"
    by (rule arg_cong2 [where f = "\<lambda>f x. f held_client x", OF _ refl])
  ultimately show ?thesis
    by (intro conjI)
qed

end
